theory Spec2Isabelle
  imports Complex_Main "HOL-Library.Char_ord" "HOL-Library.List_Lexorder"
    "HOL-Library.Product_Lexorder" "HOL-Library.Word" "HOL-Library.Code_Target_Numeral"
begin

section \<open>Complaint records\<close>

text \<open>
  One row of the \<open>complaints\<close> table without its key: what \<open>load_sample_data\<close> and the
  complaint form build. Text columns are Python strings. The two REAL columns and the
  INTEGER column hold Python ints: the sample data are ints and the form's
  \<open>number_input\<close> and \<open>slider\<close> widgets are called with int bounds, and \<open>insert_data\<close>
  has no other caller. SQLite's REAL affinity stores such an int as the nearest
  floating-point number, which is again a whole number (see \<open>real_affinity\<close>); a frame
  that was read from the table prints it as a float (see \<open>str_cell\<close>).
\<close>

record entry =
  timestamp :: string
  location :: string
  complaint_type :: string
  resolution_time :: int
  satisfaction_score :: int
  agent_name :: string
  call_duration :: int
  status :: string

text \<open>A stored row: the key column \<open>id\<close> together with the other eight columns.\<close>

record complaint =
  id_col :: nat
  cols :: entry

text \<open>
  The database file: the rows of table \<open>complaints\<close> in rowid order, and the counter that
  SQLite keeps for an AUTOINCREMENT key in its \<open>sqlite_sequence\<close> table (the largest rowid
  the table has ever held).
\<close>

record store =
  complaints :: "complaint list"
  sqlite_sequence :: nat

datatype error = DatabaseError | OverflowError | ValueError

text \<open>The clock reading of \<open>datetime.now()\<close>.\<close>

record datetime =
  year :: nat
  month :: nat
  day :: nat
  hour :: nat
  minute :: nat
  second :: nat

section \<open>Printing numbers and timestamps\<close>

definition digit :: "nat \<Rightarrow> char" where
  "digit d = ''0123456789'' ! d"

text \<open>Python's \<open>str\<close> on a non-negative int.\<close>

fun str_nat :: "nat \<Rightarrow> string" where
  "str_nat n = (if n < 10 then [digit n] else str_nat (n div 10) @ [digit (n mod 10)])"

declare str_nat.simps [simp del]

text \<open>Python's \<open>str\<close> on an int.\<close>

definition str_int :: "int \<Rightarrow> string" where
  "str_int i = (if i < 0 then CHR ''-'' # str_nat (nat (- i)) else str_nat (nat i))"

text \<open>
  The fields of \<open>strftime\<close>: month, day, hour, minute and second are padded with zeros
  to width 2; \<open>%Y\<close> is the year as the C library prints it, without padding.
\<close>

definition zfill :: "nat \<Rightarrow> string \<Rightarrow> string" where
  "zfill w s = replicate (w - length s) CHR ''0'' @ s"

definition strftime :: "datetime \<Rightarrow> string" where
  \<comment> \<open>format \<open>%Y-%m-%d %H:%M:%S\<close>\<close>
  "strftime d =
     str_nat (year d) @ ''-'' @ zfill 2 (str_nat (month d)) @ ''-'' @
     zfill 2 (str_nat (day d)) @ '' '' @ zfill 2 (str_nat (hour d)) @ '':'' @
     zfill 2 (str_nat (minute d)) @ '':'' @ zfill 2 (str_nat (second d))"

section \<open>The record store\<close>

text \<open>\<open>init_db\<close>: CREATE TABLE IF NOT EXISTS leaves an existing table as it is.\<close>

definition init_db :: "store \<Rightarrow> store" where
  "init_db st = st"

text \<open>The largest rowid of SQLite, a signed 64-bit integer.\<close>

definition max_rowid :: nat where
  "max_rowid = 2 ^ 63 - 1"

text \<open>
  A Python int is bound to an SQLite statement as a signed 64-bit integer; one that does
  not fit raises OverflowError.
\<close>

definition int64 :: "int \<Rightarrow> bool" where
  "int64 v = (- (2 ^ 63) \<le> v \<and> v < 2 ^ 63)"

definition fits_int64 :: "entry \<Rightarrow> bool" where
  "fits_int64 e =
     (int64 (resolution_time e) \<and> int64 (satisfaction_score e) \<and> int64 (call_duration e))"

text \<open>
  The REAL affinity of the columns \<open>resolution_time\<close> and \<open>call_duration\<close>: the integer is
  stored as the nearest double, ties to the even significand. A double has 53 significant
  bits, so every whole number up to \<open>2 ^ 53\<close> in size is stored as it is, and a larger one
  as a multiple of \<open>2 ^ k\<close>, \<open>k\<close> being the number of bits beyond 53.
\<close>

fun excess_bits :: "nat \<Rightarrow> nat" where
  "excess_bits n = (if n < 2 ^ 53 then 0 else Suc (excess_bits (n div 2)))"

declare excess_bits.simps [simp del]

definition nearest_double :: "nat \<Rightarrow> nat" where
  "nearest_double n =
     (let k = excess_bits n; q = n div 2 ^ k; r = n mod 2 ^ k
      in if 2 ^ k < 2 * r \<or> (2 * r = 2 ^ k \<and> odd q) then (q + 1) * 2 ^ k else q * 2 ^ k)"

definition real_affinity :: "int \<Rightarrow> int" where
  "real_affinity v =
     (if v < 0 then - int (nearest_double (nat (- v))) else int (nearest_double (nat v)))"

text \<open>The row as the table holds it.\<close>

definition stored :: "entry \<Rightarrow> entry" where
  "stored e = e\<lparr>resolution_time := real_affinity (resolution_time e),
                call_duration := real_affinity (call_duration e)\<rparr>"

text \<open>
  The key of an AUTOINCREMENT table: one more than the largest rowid the table has ever
  held, which is the larger of the \<open>sqlite_sequence\<close> counter and the largest rowid
  present. When that is already the largest rowid, the INSERT fails (SQLITE_FULL).
\<close>

definition largest_rowid :: "store \<Rightarrow> nat" where
  "largest_rowid st = fold max (map id_col (complaints st)) (sqlite_sequence st)"

definition insert_row :: "entry \<Rightarrow> store \<Rightarrow> error + store" where
  "insert_row e st =
     (if \<not> fits_int64 e then Inl OverflowError
      else (let m = largest_rowid st
            in if max_rowid \<le> m then Inl DatabaseError
               else Inr \<lparr>complaints = complaints st @ [\<lparr>id_col = m + 1, cols = stored e\<rparr>],
                         sqlite_sequence = m + 1\<rparr>))"

text \<open>
  \<open>DataFrame.to_sql\<close> with \<open>if_exists='append'\<close>: one INSERT per row of the frame, in
  order, inside one transaction. An error leaves the caller with the exception only, so
  the database keeps the state it had before the call.
\<close>

fun to_sql :: "entry list \<Rightarrow> store \<Rightarrow> error + store" where
  "to_sql [] st = Inr st"
| "to_sql (e # es) st =
     (case insert_row e st of Inl err \<Rightarrow> Inl err | Inr st' \<Rightarrow> to_sql es st')"

definition insert_data :: "entry list \<Rightarrow> store \<Rightarrow> error + store" where
  "insert_data df st = to_sql df st"

text \<open>\<open>pd.read_sql('SELECT * FROM complaints', conn)\<close>: every stored row.\<close>

definition read_sql :: "store \<Rightarrow> complaint list" where
  "read_sql st = complaints st"

text \<open>
  The "Clear All Data" button: \<open>DELETE FROM complaints\<close>. The statement removes the rows of
  \<open>complaints\<close> and does not touch \<open>sqlite_sequence\<close>.
\<close>

definition clear_all :: "store \<Rightarrow> store" where
  "clear_all st = st\<lparr>complaints := []\<rparr>"

definition load_sample_data :: "datetime \<Rightarrow> entry list" where
  "load_sample_data now =
     [\<lparr>timestamp = strftime now, location = ''NSW'', complaint_type = ''Billing'',
       resolution_time = 15, satisfaction_score = 4, agent_name = ''Agent1'',
       call_duration = 120, status = ''Resolved''\<rparr>,
      \<lparr>timestamp = strftime now, location = ''QLD'', complaint_type = ''Service'',
       resolution_time = 25, satisfaction_score = 3, agent_name = ''Agent2'',
       call_duration = 180, status = ''Pending''\<rparr>,
      \<lparr>timestamp = strftime now, location = ''VIC'', complaint_type = ''Product'',
       resolution_time = 10, satisfaction_score = 5, agent_name = ''Agent3'',
       call_duration = 90, status = ''Resolved''\<rparr>]"

section \<open>Data frames\<close>

text \<open>
  The two kinds of frame that \<open>main\<close> works on: the result of \<open>read_sql\<close>, which has the
  \<open>id\<close> column and float64 columns \<open>resolution_time\<close> and \<open>call_duration\<close>, and a frame
  built in memory by \<open>load_sample_data\<close>, which has no \<open>id\<close> column and int64 columns.
\<close>

datatype frame = FromSql "complaint list" | Built "entry list"

fun len :: "frame \<Rightarrow> nat" where
  "len (FromSql rs) = length rs"
| "len (Built es) = length es"

text \<open>The eight columns that both kinds of frame have, row by row.\<close>

fun records :: "frame \<Rightarrow> entry list" where
  "records (FromSql rs) = map cols rs"
| "records (Built es) = es"

fun columns :: "frame \<Rightarrow> string list" where
  "columns (FromSql rs) =
     [''id'', ''timestamp'', ''location'', ''complaint_type'', ''resolution_time'',
      ''satisfaction_score'', ''agent_name'', ''call_duration'', ''status'']"
| "columns (Built es) =
     [''timestamp'', ''location'', ''complaint_type'', ''resolution_time'',
      ''satisfaction_score'', ''agent_name'', ''call_duration'', ''status'']"

text \<open>A cell value: an int64, a float64 with a whole value, or a string.\<close>

datatype cell = IntCell int | FloatCell int | TextCell string

definition entry_cells :: "(int \<Rightarrow> cell) \<Rightarrow> entry \<Rightarrow> cell list" where
  "entry_cells num e =
     [TextCell (timestamp e), TextCell (location e), TextCell (complaint_type e),
      num (resolution_time e), IntCell (satisfaction_score e), TextCell (agent_name e),
      num (call_duration e), TextCell (status e)]"

fun cells :: "frame \<Rightarrow> cell list list" where
  "cells (FromSql rs) =
     map (\<lambda>r. IntCell (int (id_col r)) # entry_cells FloatCell (cols r)) rs"
| "cells (Built es) = map (entry_cells IntCell) es"

section \<open>Aggregation\<close>

text \<open>
  \<open>Series.mean\<close>: the sum of the values divided by their number, and NaN (here \<open>None\<close>) for
  a series without values. The values are whole numbers, so the sum is exact; the quotient
  is taken as the exact rational.
\<close>

definition mean :: "int list \<Rightarrow> rat option" where
  "mean xs = (if length xs = 0 then None
              else Some (of_int (fold (+) xs 0) / of_nat (length xs)))"

text \<open>
  \<open>groupby(key)\<close>: one group per distinct key value, the groups in ascending order of the
  key, each group holding its rows in frame order.
\<close>

definition groupby :: "('a \<Rightarrow> 'k::linorder) \<Rightarrow> 'a list \<Rightarrow> ('k \<times> 'a list) list" where
  "groupby key rs =
     map (\<lambda>k. (k, filter (\<lambda>r. key r = k) rs)) (sort (remdups (map key rs)))"

record agent_stat =
  agent :: string
  resolution_time_mean :: "rat option"
  satisfaction_score_mean :: "rat option"
  call_duration_mean :: "rat option"
  cases_handled :: nat

definition agent_stats :: "frame \<Rightarrow> agent_stat list" where
  "agent_stats df =
     map (\<lambda>(k, g). \<lparr>agent = k,
                      resolution_time_mean = mean (map resolution_time g),
                      satisfaction_score_mean = mean (map satisfaction_score g),
                      call_duration_mean = mean (map call_duration g),
                      cases_handled = length (map timestamp g)\<rparr>)
       (groupby agent_name (records df))"

subsection \<open>Reading timestamps\<close>

definition digit_val :: "char \<Rightarrow> nat option" where
  "digit_val = map_of
     [(CHR ''0'', 0), (CHR ''1'', 1), (CHR ''2'', 2), (CHR ''3'', 3), (CHR ''4'', 4),
      (CHR ''5'', 5), (CHR ''6'', 6), (CHR ''7'', 7), (CHR ''8'', 8), (CHR ''9'', 9)]"

fun parse_digits :: "nat \<Rightarrow> string \<Rightarrow> nat option" where
  "parse_digits acc [] = Some acc"
| "parse_digits acc (c # cs) =
     (case digit_val c of None \<Rightarrow> None | Some d \<Rightarrow> parse_digits (10 * acc + d) cs)"

definition parse_nat :: "string \<Rightarrow> nat option" where
  "parse_nat s = (if s = [] then None else parse_digits 0 s)"

definition leap :: "nat \<Rightarrow> bool" where
  "leap y = (y mod 4 = 0 \<and> (y mod 100 \<noteq> 0 \<or> y mod 400 = 0))"

definition days_in_month :: "nat \<Rightarrow> nat \<Rightarrow> nat" where
  "days_in_month y m =
     (if m = 2 then (if leap y then 29 else 28)
      else if m = 4 \<or> m = 6 \<or> m = 9 \<or> m = 11 then 30 else 31)"

text \<open>
  The dates and times that pandas holds at its nanosecond resolution whatever its version:
  a date of the calendar, a time of the day, and a year from 1678 to 2261.
\<close>

definition core_datetime :: "datetime \<Rightarrow> bool" where
  "core_datetime d =
     (1678 \<le> year d \<and> year d \<le> 2261 \<and>
      1 \<le> month d \<and> month d \<le> 12 \<and> 1 \<le> day d \<and> day d \<le> days_in_month (year d) (month d) \<and>
      hour d < 24 \<and> minute d < 60 \<and> second d < 60)"

definition field :: "nat \<Rightarrow> nat \<Rightarrow> string \<Rightarrow> nat option" where
  "field i n s = parse_nat (take n (drop i s))"

text \<open>
  A timestamp in the spelling that the program writes, \<open>YYYY-MM-DD HH:MM:SS\<close>, read as
  the date and time it spells; \<open>None\<close> for any other string.
\<close>

definition read_timestamp :: "string \<Rightarrow> datetime option" where
  "read_timestamp s =
     (if length s = 19 \<and> s ! 4 = CHR ''-'' \<and> s ! 7 = CHR ''-'' \<and> s ! 10 = CHR '' '' \<and>
         s ! 13 = CHR '':'' \<and> s ! 16 = CHR '':''
      then (case (field 0 4 s, field 5 2 s, field 8 2 s, field 11 2 s, field 14 2 s,
                  field 17 2 s) of
              (Some y, Some m, Some d, Some h, Some mi, Some se) \<Rightarrow>
                (let dt = \<lparr>year = y, month = m, day = d, hour = h, minute = mi, second = se\<rparr>
                 in if core_datetime dt then Some dt else None)
            | _ \<Rightarrow> None)
      else None)"

text \<open>A calendar date: year, month, day, ordered lexicographically.\<close>

type_synonym date = "nat \<times> nat \<times> nat"

definition dt_date :: "datetime \<Rightarrow> date" where
  "dt_date d = (year d, month d, day d)"

text \<open>
  What the script takes from the pandas library beyond the cases modelled here:
  \<^item> \<open>to_datetime_other\<close>: the result of \<open>pd.to_datetime(column).dt.date\<close> for a column in
    which some string is not a timestamp in the program's own spelling: an exception, or
    one date per row, \<open>None\<close> for a row that pandas reads as not-a-time;
  \<^item> \<open>repr_float\<close>: the text of a float64 of size \<open>10 ^ 16\<close> or more, which is printed
    with an exponent.
\<close>

record pandas =
  to_datetime_other :: "string list \<Rightarrow> error + date option list"
  repr_float :: "int \<Rightarrow> string"

text \<open>
  The "Trends" tab. Line 109 adds the \<open>date\<close> column: a column of timestamps in the
  program's own spelling becomes the calendar dates they spell; line 110 groups the rows
  by date, leaving out a row without a date, and counts each group.
\<close>

definition date_column :: "pandas \<Rightarrow> frame \<Rightarrow> error + date option list" where
  "date_column pd df =
     (case those (map read_timestamp (map timestamp (records df))) of
        None \<Rightarrow> to_datetime_other pd (map timestamp (records df))
      | Some ds \<Rightarrow> Inr (map (\<lambda>d. Some (dt_date d)) ds))"

fun dated :: "('k option \<times> 'a) list \<Rightarrow> ('k \<times> 'a) list" where
  "dated [] = []"
| "dated ((None, r) # rs) = dated rs"
| "dated ((Some k, r) # rs) = (k, r) # dated rs"

definition daily_counts :: "pandas \<Rightarrow> frame \<Rightarrow> error + (date \<times> nat) list" where
  "daily_counts pd df =
     (case date_column pd df of
        Inl err \<Rightarrow> Inl err
      | Inr ds \<Rightarrow>
          Inr (map (\<lambda>(k, g). (k, length g)) (groupby fst (dated (zip ds (records df))))))"

section \<open>Export\<close>

text \<open>
  How \<open>to_csv\<close> prints a cell: an int64 as Python's \<open>str\<close>, a float64 with a whole value
  below \<open>10 ^ 16\<close> in size with a trailing \<open>.0\<close>, a larger one as the library prints it, a
  string as it is.
\<close>

fun str_cell :: "pandas \<Rightarrow> cell \<Rightarrow> string" where
  "str_cell pd (IntCell i) = str_int i"
| "str_cell pd (FloatCell i) =
     (if \<bar>i\<bar> < 10 ^ 16 then str_int i @ ''.0'' else repr_float pd i)"
| "str_cell pd (TextCell s) = s"

text \<open>
  Minimal quoting of the \<open>csv\<close> writer with the line terminator \<open>\n\<close>: a field that holds
  the delimiter, the quote character or a line feed is put in quotes, with each quote
  character doubled.
\<close>

definition special :: "char list" where
  "special = [CHR '','', CHR 0x22, CHR 0x0A]"

definition needs_quote :: "string \<Rightarrow> bool" where
  "needs_quote s = list_ex (\<lambda>c. c \<in> set special) s"

definition quote_field :: "string \<Rightarrow> string" where
  "quote_field s =
     (if needs_quote s
      then CHR 0x22 # concat (map (\<lambda>c. if c = CHR 0x22 then [c, c] else [c]) s) @ [CHR 0x22]
      else s)"

text \<open>Python's \<open>sep.join\<close>.\<close>

fun join :: "string \<Rightarrow> string list \<Rightarrow> string" where
  "join sep [] = []"
| "join sep [x] = x"
| "join sep (x # y # ys) = x @ sep @ join sep (y # ys)"

definition csv_line :: "string list \<Rightarrow> string" where
  "csv_line fs = join '','' (map quote_field fs) @ [CHR 0x0A]"

text \<open>\<open>df.to_csv(index=False)\<close>: the header line, then one line per row.\<close>

definition to_csv :: "pandas \<Rightarrow> frame \<Rightarrow> string" where
  "to_csv pd df = concat (map csv_line (columns df # map (map (str_cell pd)) (cells df)))"

text \<open>\<open>str.encode('utf-8')\<close> for code points below 256.\<close>

definition encode_char :: "char \<Rightarrow> 8 word list" where
  "encode_char c =
     (let n = (of_char c :: nat)
      in if n < 128 then [of_nat n] else [of_nat (192 + n div 64), of_nat (128 + n mod 64)])"

definition encode :: "string \<Rightarrow> 8 word list" where
  "encode s = concat (map encode_char s)"

text \<open>
  \<open>to_excel\<close> hands the frame to the workbook writer: one sheet, named \<open>Complaints\<close>, with
  the frame's header and rows. The bytes of the file are the writer's business.
\<close>

datatype workbook = Workbook string "string list" "cell list list"

definition to_excel :: "frame \<Rightarrow> workbook" where
  "to_excel df = Workbook ''Complaints'' (columns df) (cells df)"

section \<open>The page script\<close>

datatype menu = Dashboard | AddNewComplaint | DataExport | DatabaseManagement

datatype export_format = Excel | CSV

text \<open>
  What the widgets return in one run of the script. \<open>form_values\<close> holds the seven
  values of the complaint form; its \<open>timestamp\<close> is not a widget and is overwritten at
  submission.
\<close>

record ui =
  menu_option :: menu
  date_range :: "date list"
  status_filter :: "string list"
  agent_filter :: "string list"
  form_values :: entry
  form_submit_button :: bool
  export_format :: export_format
  generate_export :: bool
  password :: string
  clear_button :: bool
  load_button :: bool

datatype download = ExcelFile workbook | CsvFile "8 word list"

text \<open>
  What a run shows: the dashboard's count, three averages and agent table (the averages
  are displayed to one decimal place), and then the daily trend or, when line 109 raises,
  the exception in place of the trend; whether the form reported success; the download
  offered; whether the management section was unlocked.
\<close>

datatype page =
    DashboardPage nat "rat option" "rat option" "rat option" "agent_stat list"
      "error + (date \<times> nat) list"
  | FormPage bool
  | ExportPage "download option"
  | ManagementPage bool

text \<open>Lines 64 to 71: read the table and, when it has no rows, seed it.\<close>

definition load_df :: "datetime \<Rightarrow> store \<Rightarrow> error + (frame \<times> store)" where
  "load_df now st =
     (let df = FromSql (read_sql st)
      in if len df = 0
         then (let sample_data = load_sample_data now
               in case insert_data sample_data st of
                    Inl err \<Rightarrow> Inl err
                  | Inr st' \<Rightarrow> Inr (Built sample_data, st'))
         else Inr (df, st))"

text \<open>
  Lines 74 to 112. The metrics and the agent table are computed and shown before the
  trend is.
\<close>

definition dashboard :: "pandas \<Rightarrow> frame \<Rightarrow> page" where
  "dashboard pd df =
     DashboardPage (len df)
       (mean (map resolution_time (records df)))
       (mean (map satisfaction_score (records df)))
       (mean (map call_duration (records df)))
       (agent_stats df) (daily_counts pd df)"

text \<open>
  One run of \<open>main\<close>, with the clock read at \<open>t0\<close> for the seeding and at \<open>t1\<close> in the
  menu branch. The result is the page, or the exception that ended the run before any
  page, and the database as the run leaves it.
\<close>

definition main ::
  "pandas \<Rightarrow> ui \<Rightarrow> datetime \<Rightarrow> datetime \<Rightarrow> store \<Rightarrow> (error + page) \<times> store" where
  "main pd w t0 t1 st =
     (case load_df t0 (init_db st) of
        Inl err \<Rightarrow> (Inl err, st)
      | Inr (df, st1) \<Rightarrow>
          (case menu_option w of
             Dashboard \<Rightarrow> (Inr (dashboard pd df), st1)
           | AddNewComplaint \<Rightarrow>
               (if form_submit_button w
                then (case insert_data [(form_values w)\<lparr>timestamp := strftime t1\<rparr>] st1 of
                        Inl err \<Rightarrow> (Inl err, st1)
                      | Inr st2 \<Rightarrow> (Inr (FormPage True), st2))
                else (Inr (FormPage False), st1))
           | DataExport \<Rightarrow>
               (if generate_export w
                then (case export_format w of
                        Excel \<Rightarrow> (Inr (ExportPage (Some (ExcelFile (to_excel df)))), st1)
                      | CSV \<Rightarrow>
                          (Inr (ExportPage (Some (CsvFile (encode (to_csv pd df))))), st1))
                else (Inr (ExportPage None), st1))
           | DatabaseManagement \<Rightarrow>
               (if password w = ''admin123''
                then (let st2 = (if clear_button w then clear_all st1 else st1)
                      in if load_button w
                         then (case insert_data (load_sample_data t1) st2 of
                                 Inl err \<Rightarrow> (Inl err, st2)
                               | Inr st3 \<Rightarrow> (Inr (ManagementPage True), st3))
                         else (Inr (ManagementPage True), st2))
                else (Inr (ManagementPage False), st1))))"

section \<open>Histories of store operations\<close>

text \<open>
  The two operations that change the store, and the keys that a history of them hands out:
  the ids of the rows each successful \<open>insert_data\<close> appends, in the order of assignment.
  A failed insert changes nothing.
\<close>

datatype store_op = Insert "entry list" | ClearAll

definition new_ids :: "store \<Rightarrow> store \<Rightarrow> nat list" where
  "new_ids st st' = map id_col (drop (length (complaints st)) (complaints st'))"

fun assigned_ids :: "store_op list \<Rightarrow> store \<Rightarrow> nat list" where
  "assigned_ids [] st = []"
| "assigned_ids (Insert df # ops) st =
     (case insert_data df st of
        Inl err \<Rightarrow> assigned_ids ops st
      | Inr st' \<Rightarrow> new_ids st st' @ assigned_ids ops st')"
| "assigned_ids (ClearAll # ops) st = assigned_ids ops (clear_all st)"

text \<open>
  The state of a database that only SQLite has written: the counter is at least every
  rowid present.
\<close>

definition wf_store :: "store \<Rightarrow> bool" where
  "wf_store st = (\<forall>c \<in> set (complaints st). id_col c \<le> sqlite_sequence st)"

definition empty_store :: store where
  "empty_store = \<lparr>complaints = [], sqlite_sequence = 0\<rparr>"

section \<open>Notions used in the statements\<close>

text \<open>The rows that an insert of \<open>es\<close> appends when the largest rowid so far is \<open>m\<close>.\<close>

fun keyed :: "nat \<Rightarrow> entry list \<Rightarrow> complaint list" where
  "keyed m [] = []"
| "keyed m (e # es) = \<lparr>id_col = m + 1, cols = e\<rparr> # keyed (m + 1) es"

text \<open>
  The ranges that the specification gives the numeric fields: a satisfaction score from 1
  to 5, a resolution time and a call duration that are not negative.
\<close>

definition spec_valid :: "entry \<Rightarrow> bool" where
  "spec_valid e =
     (1 \<le> satisfaction_score e \<and> satisfaction_score e \<le> 5 \<and>
      0 \<le> resolution_time e \<and> 0 \<le> call_duration e)"


text \<open>The calendar date of a record: its timestamp read and cut to year, month, day.\<close>

definition entry_date :: "entry \<Rightarrow> date option" where
  "entry_date e = map_option dt_date (read_timestamp (timestamp e))"

text \<open>
  The filter of the specification: a record passes when its date lies in the interval,
  bounds included, its status is one of the chosen and its agent is one of the chosen; a
  dimension without a choice lets every record pass.
\<close>

definition spec_date_ok :: "date list \<Rightarrow> entry \<Rightarrow> bool" where
  "spec_date_ok dr e =
     (case dr of
        [lo, hi] \<Rightarrow> (case entry_date e of None \<Rightarrow> False | Some d \<Rightarrow> lo \<le> d \<and> d \<le> hi)
      | _ \<Rightarrow> True)"

definition spec_filter :: "date list \<Rightarrow> string list \<Rightarrow> string list \<Rightarrow> entry list \<Rightarrow> entry list" where
  "spec_filter dr sf af rs =
     filter (\<lambda>e. spec_date_ok dr e \<and> (sf = [] \<or> status e \<in> set sf) \<and>
                  (af = [] \<or> agent_name e \<in> set af)) rs"


section \<open>Sample inputs\<close>

definition morning :: datetime where
  "morning = \<lparr>year = 2026, month = 11, day = 3, hour = 9, minute = 5, second = 0\<rparr>"

definition evening :: datetime where
  "evening = \<lparr>year = 2026, month = 11, day = 4, hour = 18, minute = 30, second = 59\<rparr>"

text \<open>The store after a first seeding and a clear, and the same store seeded again.\<close>

definition seeded :: store where
  "seeded = \<lparr>complaints = keyed 3 (load_sample_data morning), sqlite_sequence = 6\<rparr>"

text \<open>Two complaints as the form stores them, one resolved and one pending.\<close>

definition two_complaints :: store where
  "two_complaints =
     \<lparr>complaints =
        [\<lparr>id_col = 1,
          cols = \<lparr>timestamp = ''2026-11-03 09:05:00'', location = ''NSW'',
                  complaint_type = ''Billing'', resolution_time = 15, satisfaction_score = 4,
                  agent_name = ''Agent1'', call_duration = 120, status = ''Resolved''\<rparr>\<rparr>,
         \<lparr>id_col = 2,
          cols = \<lparr>timestamp = ''2026-11-03 09:05:00'', location = ''QLD'',
                  complaint_type = ''Service'', resolution_time = 25, satisfaction_score = 3,
                  agent_name = ''Agent2'', call_duration = 180, status = ''Pending''\<rparr>\<rparr>],
      sqlite_sequence = 2\<rparr>"

text \<open>The widgets at rest: the dashboard selected, no filter chosen, nothing clicked.\<close>

definition idle :: ui where
  "idle =
     \<lparr>menu_option = Dashboard, date_range = [], status_filter = [], agent_filter = [],
      form_values = \<lparr>timestamp = [], location = ''NSW'', complaint_type = ''Billing'',
                      resolution_time = 0, satisfaction_score = 3, agent_name = ''Agent1'',
                      call_duration = 0, status = ''Resolved''\<rparr>,
      form_submit_button = False, export_format = Excel, generate_export = False,
      password = [], clear_button = False, load_button = False\<rparr>"

text \<open>A frame built from the sample records of two days.\<close>

definition two_days :: frame where
  "two_days = Built (load_sample_data morning @ [hd (load_sample_data evening)])"

text \<open>A stand-in for the library that is never consulted on the sample inputs.\<close>

definition plain_pandas :: pandas where
  "plain_pandas = \<lparr>to_datetime_other = (\<lambda>ts. Inl ValueError), repr_float = (\<lambda>i. ''inf'')\<rparr>"

definition cleared :: store where
  "cleared = \<lparr>complaints = [], sqlite_sequence = 3\<rparr>"

definition out_of_range :: entry where
  "out_of_range =
     \<lparr>timestamp = ''2026-11-03 09:05:00'', location = ''NSW'', complaint_type = ''Billing'',
      resolution_time = - 5, satisfaction_score = 9, agent_name = ''Agent1'',
      call_duration = - 1, status = ''Resolved''\<rparr>"

text \<open>A record whose satisfaction score does not fit 64 bits.\<close>

definition too_large :: entry where
  "too_large =
     \<lparr>timestamp = ''2026-11-03 09:05:00'', location = ''NSW'', complaint_type = ''Billing'',
      resolution_time = 15, satisfaction_score = 2 ^ 63, agent_name = ''Agent1'',
      call_duration = 120, status = ''Resolved''\<rparr>"

section \<open>Keys of the store\<close>

lemma fold_max_ge: "a \<le> fold max xs (a::nat)"
proof (induction xs arbitrary: a)
  case Nil
  show ?case by simp
next
  case (Cons x xs)
  have "a \<le> max x a" by simp
  also have "\<dots> \<le> fold max xs (max x a)" by (rule Cons.IH)
  finally show ?case by simp
qed

lemma fold_max_bound:
  "a \<le> b \<Longrightarrow> \<forall>x \<in> set xs. x \<le> b \<Longrightarrow> fold max xs (a::nat) \<le> b"
  by (induction xs arbitrary: a) auto

lemma largest_rowid_wf: "wf_store st \<Longrightarrow> largest_rowid st = sqlite_sequence st"
  unfolding largest_rowid_def wf_store_def
  by (intro antisym fold_max_bound fold_max_ge) auto

lemma insert_row_Inr:
  assumes "insert_row e st = Inr st'"
  shows "complaints st' = complaints st @ [\<lparr>id_col = largest_rowid st + 1, cols = stored e\<rparr>]"
    and "sqlite_sequence st' = largest_rowid st + 1"
    and "largest_rowid st < max_rowid"
    and "fits_int64 e"
  using assms by (auto simp: insert_row_def Let_def split: if_splits)

lemma insert_row_wf:
  assumes "insert_row e st = Inr st'" "wf_store st"
  shows "wf_store st'"
  using assms largest_rowid_wf[OF assms(2)]
  by (fastforce simp: insert_row_def Let_def wf_store_def split: if_splits)

lemma to_sql_Inr:
  "to_sql es st = Inr st' \<Longrightarrow> wf_store st \<Longrightarrow>
     wf_store st' \<and> length (complaints st') = length (complaints st) + length es \<and>
     take (length (complaints st)) (complaints st') = complaints st \<and>
     sorted_wrt (<) (new_ids st st') \<and>
     (\<forall>i \<in> set (new_ids st st'). sqlite_sequence st < i \<and> i \<le> sqlite_sequence st') \<and>
     sqlite_sequence st \<le> sqlite_sequence st'"
proof (induction es arbitrary: st)
  case Nil
  then show ?case by (simp add: new_ids_def)
next
  case (Cons e es)
  from Cons.prems obtain st1
    where s1: "insert_row e st = Inr st1" and s2: "to_sql es st1 = Inr st'"
    by (auto split: sum.splits)
  have wf1: "wf_store st1" using insert_row_wf[OF s1 Cons.prems(2)] .
  note ih = Cons.IH[OF s2 wf1]
  have c1: "complaints st1
            = complaints st @ [\<lparr>id_col = sqlite_sequence st + 1, cols = stored e\<rparr>]"
    and q1: "sqlite_sequence st1 = sqlite_sequence st + 1"
    using insert_row_Inr[OF s1] largest_rowid_wf[OF Cons.prems(2)] by simp_all
  have tk: "take (length (complaints st1)) (complaints st') = complaints st1"
    using ih by simp
  then have split: "complaints st' = complaints st1 @ drop (length (complaints st1)) (complaints st')"
    by (metis append_take_drop_id)
  have nid: "new_ids st st' = (sqlite_sequence st + 1) # new_ids st1 st'"
    unfolding new_ids_def by (subst split) (simp add: c1)
  have "take (length (complaints st)) (complaints st') = complaints st"
    by (subst split) (simp add: c1)
  moreover have "sorted_wrt (<) (new_ids st st')"
    using ih q1 by (auto simp: nid)
  moreover have "\<forall>i \<in> set (new_ids st st'). sqlite_sequence st < i \<and> i \<le> sqlite_sequence st'"
    using ih q1 by (auto simp: nid)
  ultimately show ?case using ih q1 c1 by simp
qed

lemma clear_all_wf: "wf_store (clear_all st)"
  by (simp add: clear_all_def wf_store_def)

lemma clear_all_seq: "sqlite_sequence (clear_all st) = sqlite_sequence st"
  by (simp add: clear_all_def)

text \<open>
  C10. In every history of inserts and clears on a database that SQLite has written, the
  ids handed out are strictly increasing in the order of assignment, and each is larger
  than the counter the history started from, hence larger than every id the table held
  before. \<open>clear_all\<close> keeps the counter, so an id is never handed out twice, also after
  the table has been emptied.
\<close>

theorem ids_never_reused:
  "wf_store st \<Longrightarrow>
     sorted_wrt (<) (assigned_ids ops st) \<and>
     (\<forall>i \<in> set (assigned_ids ops st). sqlite_sequence st < i)"
proof (induction ops arbitrary: st)
  case Nil
  then show ?case by simp
next
  case (Cons a ops)
  show ?case
  proof (cases a)
    case (Insert df)
    show ?thesis
    proof (cases "insert_data df st")
      case (Inl err)
      then show ?thesis using Cons Insert by simp
    next
      case (Inr st')
      then have t: "to_sql df st = Inr st'" by (simp add: insert_data_def)
      note h = to_sql_Inr[OF t Cons.prems]
      from h have wf': "wf_store st'" by simp
      note ih = Cons.IH[OF wf']
      have "sorted_wrt (<) (new_ids st st' @ assigned_ids ops st')"
        using h ih by (fastforce simp: sorted_wrt_append)
      moreover have "\<forall>i \<in> set (new_ids st st' @ assigned_ids ops st'). sqlite_sequence st < i"
        using h ih by fastforce
      ultimately show ?thesis using Insert Inr by simp
    qed
  next
    case ClearAll
    then show ?thesis
      using Cons.IH[OF clear_all_wf, of st] by (simp add: clear_all_seq)
  qed
qed

theorem ids_never_reused_witness:
  "wf_store empty_store \<and>
   sorted_wrt (<)
     (assigned_ids [Insert (load_sample_data morning), ClearAll,
                    Insert (load_sample_data morning)] empty_store) \<and>
   list_all (\<lambda>i. sqlite_sequence empty_store < i)
     (assigned_ids [Insert (load_sample_data morning), ClearAll,
                    Insert (load_sample_data morning)] empty_store)"
proof -
  have h: "wf_store empty_store" by (simp add: wf_store_def empty_store_def)
  show ?thesis unfolding list_all_iff by (rule conjI[OF h ids_never_reused[OF h]])
qed

lemma assigned_ids_example:
  "assigned_ids [Insert (load_sample_data morning), ClearAll,
                 Insert (load_sample_data morning)] empty_store = [1, 2, 3, 4, 5, 6]"
  by (simp add: insert_data_def insert_row_def fits_int64_def int64_def largest_rowid_def
      max_rowid_def new_ids_def clear_all_def load_sample_data_def empty_store_def Let_def)

section \<open>Inserting\<close>

lemma fold_max_mem: "x \<in> set xs \<Longrightarrow> x \<le> fold max xs (a::nat)"
proof (induction xs arbitrary: a)
  case Nil
  then show ?case by simp
next
  case (Cons y ys)
  show ?case
  proof (cases "x = y")
    case True
    have "x \<le> max y a" using True by simp
    also have "\<dots> \<le> fold max ys (max y a)" by (rule fold_max_ge)
    finally show ?thesis by simp
  next
    case False
    then have "x \<in> set ys" using Cons.prems by simp
    then show ?thesis using Cons.IH by simp
  qed
qed

lemma largest_rowid_after_insert:
  assumes "insert_row e st = Inr st'"
  shows "largest_rowid st' = largest_rowid st + 1"
proof -
  let ?m = "largest_rowid st"
  have ids: "\<forall>x \<in> set (map id_col (complaints st)). x \<le> ?m + 1"
  proof
    fix x assume "x \<in> set (map id_col (complaints st))"
    then have "x \<le> ?m" unfolding largest_rowid_def by (rule fold_max_mem)
    then show "x \<le> ?m + 1" by simp
  qed
  have "fold max (map id_col (complaints st)) (?m + 1) = ?m + 1"
    by (intro antisym fold_max_bound fold_max_ge ids) simp
  then show ?thesis
    using insert_row_Inr(1,2)[OF assms] by (simp add: largest_rowid_def)
qed

lemma to_sql_appends:
  "list_all fits_int64 es \<Longrightarrow> largest_rowid st + length es \<le> max_rowid \<Longrightarrow>
     to_sql es st =
       Inr (st\<lparr>complaints := complaints st @ keyed (largest_rowid st) (map stored es),
                sqlite_sequence := (if es = [] then sqlite_sequence st
                                    else largest_rowid st + length es)\<rparr>)"
proof (induction es arbitrary: st)
  case Nil
  then show ?case by simp
next
  case (Cons e es)
  let ?m = "largest_rowid st"
  let ?st1 = "\<lparr>complaints = complaints st @ [\<lparr>id_col = ?m + 1, cols = stored e\<rparr>],
               sqlite_sequence = ?m + 1\<rparr>"
  have f: "fits_int64 e" and fs: "list_all fits_int64 es" using Cons.prems(1) by simp_all
  have lt: "\<not> max_rowid \<le> ?m" using Cons.prems(2) by simp
  with f have s1: "insert_row e st = Inr ?st1" by (simp add: insert_row_def Let_def)
  have l1: "largest_rowid ?st1 = ?m + 1" by (rule largest_rowid_after_insert[OF s1])
  have "largest_rowid ?st1 + length es \<le> max_rowid" using Cons.prems(2) l1 by simp
  from Cons.IH[OF fs this] show ?case using s1 l1 by (cases es) simp_all
qed

lemma to_sql_fails:
  "to_sql es st = Inl err \<Longrightarrow>
     (err = OverflowError \<and> \<not> list_all fits_int64 es) \<or>
     (err = DatabaseError \<and> max_rowid < largest_rowid st + length es)"
proof (induction es arbitrary: st)
  case Nil
  then show ?case by simp
next
  case (Cons e es)
  show ?case
  proof (cases "insert_row e st")
    case (Inl err')
    then have "err' = err" using Cons.prems by simp
    with Inl show ?thesis by (auto simp: insert_row_def Let_def split: if_splits)
  next
    case (Inr st1)
    then have "to_sql es st1 = Inl err" using Cons.prems by simp
    from Cons.IH[OF this] largest_rowid_after_insert[OF Inr] show ?thesis by auto
  qed
qed

lemma excess_bits_small: "n < 2 ^ 53 \<Longrightarrow> excess_bits n = 0"
  by (subst excess_bits.simps) simp

lemma nearest_double_small: "n < 2 ^ 53 \<Longrightarrow> nearest_double n = n"
  by (simp add: nearest_double_def excess_bits_small)

lemma real_affinity_small: "\<bar>v\<bar> < 2 ^ 53 \<Longrightarrow> real_affinity v = v"
proof -
  assume a: "\<bar>v\<bar> < 2 ^ 53"
  show ?thesis
  proof (cases "v < 0")
    case True
    then have "nat (- v) < 2 ^ 53" using a by (simp add: nat_less_iff)
    then show ?thesis using True by (simp add: real_affinity_def nearest_double_small)
  next
    case False
    then have "nat v < 2 ^ 53" using a by (simp add: nat_less_iff)
    then show ?thesis using False by (simp add: real_affinity_def nearest_double_small)
  qed
qed

lemma excess_bits_1: "2 ^ 53 \<le> n \<Longrightarrow> n < 2 ^ 54 \<Longrightarrow> excess_bits n = 1"
  by (subst excess_bits.simps, simp, subst excess_bits.simps, simp)

text \<open>Above \<open>2 ^ 53\<close> odd numbers are not stored as they are: ties go to the even side.\<close>

lemma real_affinity_rounds:
  "real_affinity 9007199254740993 = 9007199254740992 \<and>
   real_affinity 9007199254740995 = 9007199254740996"
  by (simp add: real_affinity_def nearest_double_def excess_bits_1)

lemma stored_small:
  "\<bar>resolution_time e\<bar> < 2 ^ 53 \<Longrightarrow> \<bar>call_duration e\<bar> < 2 ^ 53 \<Longrightarrow> stored e = e"
  by (simp add: stored_def real_affinity_small)

lemma stored_sample: "map stored (load_sample_data now) = load_sample_data now"
  by (simp add: load_sample_data_def stored_small)

lemma fits_sample: "list_all fits_int64 (load_sample_data now)"
  by (simp add: load_sample_data_def fits_int64_def int64_def)

lemma stored_out_of_range: "stored out_of_range = out_of_range"
  by (rule stored_small) (simp_all add: out_of_range_def)

lemma insert_data_appends:
  "list_all fits_int64 df \<Longrightarrow> largest_rowid st + length df \<le> max_rowid \<Longrightarrow>
     insert_data df st =
       Inr (st\<lparr>complaints := complaints st @ keyed (largest_rowid st) (map stored df),
                sqlite_sequence := (if df = [] then sqlite_sequence st
                                    else largest_rowid st + length df)\<rparr>)"
  unfolding insert_data_def by (rule to_sql_appends)

text \<open>
  C2, as the claim states it, fails: a record with satisfaction score 9, resolution time
  -5 and call duration -1 is not rejected; it is written to the empty store under id 1.
\<close>

theorem insert_accepts_out_of_range:
  "\<not> spec_valid out_of_range \<and>
   insert_data [out_of_range] empty_store =
     Inr \<lparr>complaints = [\<lparr>id_col = 1, cols = out_of_range\<rparr>], sqlite_sequence = 1\<rparr>"
proof
  show "\<not> spec_valid out_of_range" by (simp add: spec_valid_def out_of_range_def)
  have f: "fits_int64 out_of_range" by (simp add: fits_int64_def int64_def out_of_range_def)
  show "insert_data [out_of_range] empty_store =
     Inr \<lparr>complaints = [\<lparr>id_col = 1, cols = out_of_range\<rparr>], sqlite_sequence = 1\<rparr>"
    using f by (simp add: insert_data_def insert_row_def Let_def stored_out_of_range
        largest_rowid_def max_rowid_def empty_store_def)
qed

text \<open>
  C2, amended. \<open>insert_data\<close> has no validation error and checks no field against the
  ranges of the specification. A batch whose numbers all fit a signed 64-bit integer,
  inserted into a store with enough unused keys, is written in full under the next keys,
  whatever the satisfaction scores, times and durations are; each row is stored as
  submitted, the two REAL columns as the nearest double. An insert fails only with
  OverflowError, when a number does not fit 64 bits, or with DatabaseError, when the keys
  run out.
\<close>

theorem insert_data_checks_nothing:
  "(list_all fits_int64 df \<longrightarrow> largest_rowid st + length df \<le> max_rowid \<longrightarrow>
      insert_data df st =
        Inr (st\<lparr>complaints := complaints st @ keyed (largest_rowid st) (map stored df),
                 sqlite_sequence := (if df = [] then sqlite_sequence st
                                     else largest_rowid st + length df)\<rparr>)) \<and>
   (insert_data df st = Inl err \<longrightarrow>
      (err = OverflowError \<and> \<not> list_all fits_int64 df) \<or>
      (err = DatabaseError \<and> max_rowid < largest_rowid st + length df))"
proof (intro conjI impI)
  assume "list_all fits_int64 df" and "largest_rowid st + length df \<le> max_rowid"
  then show "insert_data df st =
        Inr (st\<lparr>complaints := complaints st @ keyed (largest_rowid st) (map stored df),
                 sqlite_sequence := (if df = [] then sqlite_sequence st
                                     else largest_rowid st + length df)\<rparr>)"
    by (rule insert_data_appends)
next
  assume "insert_data df st = Inl err"
  then have "to_sql df st = Inl err" by (simp add: insert_data_def)
  then show "(err = OverflowError \<and> \<not> list_all fits_int64 df) \<or>
      (err = DatabaseError \<and> max_rowid < largest_rowid st + length df)"
    by (rule to_sql_fails)
qed

theorem insert_data_checks_nothing_witness:
  "\<not> spec_valid out_of_range \<and> list_all fits_int64 [out_of_range] \<and>
   largest_rowid cleared + length [out_of_range] \<le> max_rowid \<and>
   insert_data [out_of_range] cleared =
     Inr \<lparr>complaints = [\<lparr>id_col = 4, cols = out_of_range\<rparr>], sqlite_sequence = 4\<rparr> \<and>
   insert_data [too_large] cleared = Inl OverflowError \<and>
   \<not> list_all fits_int64 [too_large]"
proof -
  have v: "\<not> spec_valid out_of_range" by (simp add: spec_valid_def out_of_range_def)
  have f: "list_all fits_int64 [out_of_range]"
    by (simp add: fits_int64_def int64_def out_of_range_def)
  have h: "largest_rowid cleared + length [out_of_range] \<le> max_rowid"
    by (simp add: largest_rowid_def cleared_def max_rowid_def)
  have t: "insert_data [too_large] cleared = Inl OverflowError"
    by (simp add: insert_data_def insert_row_def fits_int64_def int64_def too_large_def)
  from insert_data_checks_nothing[of "[out_of_range]" cleared] f h
  have 1: "insert_data [out_of_range] cleared =
     Inr \<lparr>complaints = [\<lparr>id_col = 4, cols = out_of_range\<rparr>], sqlite_sequence = 4\<rparr>"
    by (simp add: largest_rowid_def cleared_def stored_out_of_range)
  from insert_data_checks_nothing[of "[too_large]" cleared OverflowError] t
  have 2: "\<not> list_all fits_int64 [too_large]" by blast
  show ?thesis using v f h 1 t 2 by blast
qed

section \<open>Seeding\<close>


section \<open>Averages and the agent table\<close>




lemma groupby_keys: "map fst (groupby key rs) = sort (remdups (map key rs))"
  by (simp add: groupby_def comp_def)

lemma groupby_keys_increasing: "sorted_wrt (<) (map fst (groupby key rs))"
  unfolding groupby_keys by (simp add: strict_sorted_iff)

lemma groupby_keys_set: "set (map fst (groupby key rs)) = key ` set rs"
  unfolding groupby_keys by simp

lemma groupby_member:
  assumes "(k, g) \<in> set (groupby key rs)"
  shows "k \<in> key ` set rs" and "g = filter (\<lambda>r. key r = k) rs" and "g \<noteq> []"
proof -
  from assms show k: "k \<in> key ` set rs" and g: "g = filter (\<lambda>r. key r = k) rs"
    by (auto simp: groupby_def)
  from k obtain r where "r \<in> set rs" "key r = k" by auto
  then show "g \<noteq> []" unfolding g by (auto simp: filter_empty_conv)
qed








section \<open>Timestamps written and read\<close>

lemma digit_val_digit: "d < 10 \<Longrightarrow> digit_val (digit d) = Some d"
proof -
  assume "d < 10"
  then have "d \<in> {0, 1, 2, 3, 4, 5, 6, 7, 8, 9}" by auto
  then show ?thesis by (auto simp: digit_def digit_val_def)
qed

lemma parse_digits_snoc:
  "parse_digits acc (s @ [c]) =
     (case parse_digits acc s of
        None \<Rightarrow> None
      | Some a \<Rightarrow> (case digit_val c of None \<Rightarrow> None | Some d \<Rightarrow> Some (10 * a + d)))"
proof (induction s arbitrary: acc)
  case Nil
  show ?case by (cases "digit_val c") simp_all
next
  case (Cons x s)
  show ?case by (cases "digit_val x") (simp_all add: Cons.IH)
qed

lemma parse_digits_str_nat: "parse_digits 0 (str_nat n) = Some n"
proof (induction n rule: str_nat.induct)
  case (1 n)
  show ?case
  proof (cases "n < 10")
    case True
    then show ?thesis by (subst str_nat.simps) (simp add: digit_val_digit)
  next
    case False
    have "n mod 10 < 10" by simp
    then have d: "digit_val (digit (n mod 10)) = Some (n mod 10)" by (rule digit_val_digit)
    show ?thesis
      using False 1[OF False] d by (subst str_nat.simps) (simp add: parse_digits_snoc)
  qed
qed

lemma str_nat_nonempty: "str_nat n \<noteq> []"
  by (subst str_nat.simps) simp

lemma parse_digits_zeros:
  "parse_digits 0 (replicate k CHR ''0'' @ s) = parse_digits 0 s"
  by (induction k) (simp_all add: digit_val_def)

lemma parse_nat_zfill: "parse_nat (zfill w (str_nat n)) = Some n"
  by (simp add: parse_nat_def zfill_def str_nat_nonempty parse_digits_zeros
      parse_digits_str_nat)

lemma parse_nat_str_nat: "parse_nat (str_nat n) = Some n"
  by (simp add: parse_nat_def str_nat_nonempty parse_digits_str_nat)

lemma length_str_nat_1: "n < 10 \<Longrightarrow> length (str_nat n) = 1"
  by (subst str_nat.simps) simp

lemma length_str_nat_2: "10 \<le> n \<Longrightarrow> n < 100 \<Longrightarrow> length (str_nat n) = 2"
  using length_str_nat_1[of "n div 10"] by (subst str_nat.simps) simp

lemma length_str_nat_3: "100 \<le> n \<Longrightarrow> n < 1000 \<Longrightarrow> length (str_nat n) = 3"
  using length_str_nat_2[of "n div 10"] by (subst str_nat.simps) simp

lemma length_str_nat_4: "1000 \<le> n \<Longrightarrow> n < 10000 \<Longrightarrow> length (str_nat n) = 4"
  using length_str_nat_3[of "n div 10"] by (subst str_nat.simps) simp

lemma length_zfill_2: "n < 100 \<Longrightarrow> length (zfill 2 (str_nat n)) = 2"
proof (cases "n < 10")
  case True
  then show ?thesis by (simp add: zfill_def length_str_nat_1)
next
  case False
  assume "n < 100"
  with False show ?thesis by (simp add: zfill_def length_str_nat_2)
qed

lemma days_in_month_le: "days_in_month y m \<le> 31"
  by (simp add: days_in_month_def)

lemma stamp_shape:
  assumes "length y = 4" "length mo = 2" "length dd = 2" "length h = 2" "length mi = 2"
    "length se = 2"
  defines "s \<equiv> y @ ''-'' @ mo @ ''-'' @ dd @ '' '' @ h @ '':'' @ mi @ '':'' @ se"
  shows "length s = 19"
    and "s ! 4 = CHR ''-''" and "s ! 7 = CHR ''-''" and "s ! 10 = CHR '' ''"
    and "s ! 13 = CHR '':''" and "s ! 16 = CHR '':''"
    and "take 4 (drop 0 s) = y" and "take 2 (drop 5 s) = mo" and "take 2 (drop 8 s) = dd"
    and "take 2 (drop 11 s) = h" and "take 2 (drop 14 s) = mi" and "take 2 (drop 17 s) = se"
  using assms(1-6) unfolding s_def by (simp_all add: nth_append)

lemma read_timestamp_strftime:
  assumes "core_datetime d"
  shows "read_timestamp (strftime d) = Some d"
proof -
  from assms have y: "1000 \<le> year d" "year d < 10000"
    and r: "month d < 100" "day d < 100" "hour d < 100" "minute d < 100" "second d < 100"
    and dm: "day d \<le> days_in_month (year d) (month d)"
    using days_in_month_le[of "year d" "month d"] by (auto simp: core_datetime_def)
  note sh = stamp_shape[OF length_str_nat_4[OF y] length_zfill_2[OF r(1)]
      length_zfill_2[OF r(2)] length_zfill_2[OF r(3)] length_zfill_2[OF r(4)]
      length_zfill_2[OF r(5)]]
  have f: "field 0 4 (strftime d) = Some (year d)" "field 5 2 (strftime d) = Some (month d)"
    "field 8 2 (strftime d) = Some (day d)" "field 11 2 (strftime d) = Some (hour d)"
    "field 14 2 (strftime d) = Some (minute d)" "field 17 2 (strftime d) = Some (second d)"
    unfolding field_def strftime_def
    by (simp_all only: sh parse_nat_str_nat parse_nat_zfill)
  have l: "length (strftime d) = 19" "strftime d ! 4 = CHR ''-''" "strftime d ! 7 = CHR ''-''"
    "strftime d ! 10 = CHR '' ''" "strftime d ! 13 = CHR '':''" "strftime d ! 16 = CHR '':''"
    unfolding strftime_def by (simp_all only: sh)
  have e: "\<lparr>year = year d, month = month d, day = day d, hour = hour d, minute = minute d,
            second = second d\<rparr> = d" by simp
  show ?thesis
    unfolding read_timestamp_def by (simp only: l f, simp add: Let_def e assms)
qed

section \<open>The daily trend\<close>

lemma those_map_Some_id: "those (map Some xs) = Some xs"
  by (induction xs) simp_all

lemma dated_zip: "dated (zip (map (\<lambda>d. Some (f d)) ds) rs) = zip (map f ds) rs"
proof (induction ds arbitrary: rs)
  case Nil
  show ?case by simp
next
  case (Cons d ds)
  show ?case by (cases rs) (simp_all add: Cons.IH)
qed

lemma zip_key_count:
  "length xs = length rs \<Longrightarrow>
     length (filter (\<lambda>p. fst p = k) (zip xs rs)) = length (filter (\<lambda>x. x = k) xs)"
proof (induction xs arbitrary: rs)
  case Nil
  show ?case by simp
next
  case (Cons x xs)
  then obtain r rs' where rs: "rs = r # rs'" by (cases rs) auto
  with Cons.prems have "length xs = length rs'" by simp
  from Cons.IH[OF this] show ?case by (simp add: rs)
qed

lemma date_column_own:
  assumes "map timestamp (records df) = map strftime ds" and "list_all core_datetime ds"
  shows "date_column pd df = Inr (map (\<lambda>d. Some (dt_date d)) ds)"
proof -
  have "map read_timestamp (map strftime ds) = map Some ds"
    unfolding map_map comp_def map_eq_conv
    using assms(2) by (auto simp: list_all_iff read_timestamp_strftime)
  then have "those (map read_timestamp (map timestamp (records df))) = Some ds"
    by (simp only: assms(1) those_map_Some_id)
  then show ?thesis by (simp add: date_column_def)
qed

text \<open>
  C7. For a frame whose timestamps are the clock readings \<open>ds\<close> as the program writes
  them, the trend has one row per calendar date (year, month, day) among the readings, in
  strictly ascending order of the date, and the count of a row is the number of readings
  on that date.
\<close>

theorem daily_trend:
  assumes "map timestamp (records df) = map strftime ds" and "list_all core_datetime ds"
  shows "\<exists>tr. daily_counts pd df = Inr tr \<and>
           sorted_wrt (<) (map fst tr) \<and>
           set (map fst tr) = set (map (\<lambda>d. (year d, month d, day d)) ds) \<and>
           (\<forall>(k, n) \<in> set tr.
              n = length (filter (\<lambda>d. (year d, month d, day d) = k) ds))"
proof -
  define xs where "xs = map (\<lambda>d. (year d, month d, day d)) ds"
  define tr where "tr = map (\<lambda>(k, g). (k, length g)) (groupby fst (zip xs (records df)))"
  have len: "length xs = length (records df)"
    using assms(1) unfolding xs_def by (metis length_map)
  have "dated (zip (map (\<lambda>d. Some (dt_date d)) ds) (records df)) = zip xs (records df)"
    unfolding xs_def dated_zip by (simp add: dt_date_def)
  then have 1: "daily_counts pd df = Inr tr"
    unfolding daily_counts_def date_column_own[OF assms] tr_def by simp
  have keys: "map fst tr = map fst (groupby fst (zip xs (records df)))"
    by (simp add: tr_def comp_def case_prod_beta)
  have 2: "sorted_wrt (<) (map fst tr)"
    unfolding keys by (rule groupby_keys_increasing)
  have "map fst (zip xs (records df)) = xs" using len by simp
  then have "fst ` set (zip xs (records df)) = set xs" by (metis set_map)
  then have 3: "set (map fst tr) = set xs"
    unfolding keys groupby_keys_set by simp
  have 4: "\<forall>(k, n) \<in> set tr. n = length (filter (\<lambda>d. (year d, month d, day d) = k) ds)"
  proof (clarify)
    fix k n assume "(k, n) \<in> set tr"
    then obtain g where g: "(k, g) \<in> set (groupby fst (zip xs (records df)))"
      and n: "n = length g"
      by (auto simp: tr_def)
    have "n = length (filter (\<lambda>x. x = k) xs)"
      using groupby_member(2)[OF g] n zip_key_count[OF len] by simp
    also have "\<dots> = length (filter (\<lambda>d. (year d, month d, day d) = k) ds)"
      unfolding xs_def filter_map comp_def by simp
    finally show "n = length (filter (\<lambda>d. (year d, month d, day d) = k) ds)" .
  qed
  from 1 2 3 4 show ?thesis unfolding xs_def by blast
qed

section \<open>The script on sample inputs\<close>

lemma strftime_morning: "strftime morning = ''2026-11-03 09:05:00''"
  by (simp add: strftime_def morning_def zfill_def str_nat.simps digit_def)

lemma strftime_evening: "strftime evening = ''2026-11-04 18:30:59''"
  by (simp add: strftime_def evening_def zfill_def str_nat.simps digit_def)

lemma read_timestamp_morning: "read_timestamp ''2026-11-03 09:05:00'' = Some morning"
  by (simp add: read_timestamp_def field_def parse_nat_def digit_val_def core_datetime_def
      days_in_month_def leap_def morning_def)

lemma read_timestamp_evening: "read_timestamp ''2026-11-04 18:30:59'' = Some evening"
  by (simp add: read_timestamp_def field_def parse_nat_def digit_val_def core_datetime_def
      days_in_month_def leap_def evening_def)

lemma sample_morning:
  "load_sample_data morning =
     [\<lparr>timestamp = ''2026-11-03 09:05:00'', location = ''NSW'', complaint_type = ''Billing'',
       resolution_time = 15, satisfaction_score = 4, agent_name = ''Agent1'',
       call_duration = 120, status = ''Resolved''\<rparr>,
      \<lparr>timestamp = ''2026-11-03 09:05:00'', location = ''QLD'', complaint_type = ''Service'',
       resolution_time = 25, satisfaction_score = 3, agent_name = ''Agent2'',
       call_duration = 180, status = ''Pending''\<rparr>,
      \<lparr>timestamp = ''2026-11-03 09:05:00'', location = ''VIC'', complaint_type = ''Product'',
       resolution_time = 10, satisfaction_score = 5, agent_name = ''Agent3'',
       call_duration = 90, status = ''Resolved''\<rparr>]"
  by (simp add: load_sample_data_def strftime_morning)



lemma two_days_records:
  "records two_days =
     load_sample_data morning @
     [\<lparr>timestamp = ''2026-11-04 18:30:59'', location = ''NSW'', complaint_type = ''Billing'',
       resolution_time = 15, satisfaction_score = 4, agent_name = ''Agent1'',
       call_duration = 120, status = ''Resolved''\<rparr>]"
  by (simp add: two_days_def load_sample_data_def strftime_evening)

lemma daily_counts_two_days:
  "daily_counts pd two_days = Inr [((2026, 11, 3), 3), ((2026, 11, 4), 1)]"
  unfolding daily_counts_def date_column_def two_days_records sample_morning
  by (simp add: read_timestamp_morning read_timestamp_evening groupby_def dt_date_def
      morning_def evening_def)


lemma to_csv_sample:
  "to_csv pd (Built (load_sample_data morning)) =
     ''timestamp,location,complaint_type,resolution_time,satisfaction_score,agent_name,call_duration,status'' @ [CHR 0x0A] @
     ''2026-11-03 09:05:00,NSW,Billing,15,4,Agent1,120,Resolved'' @ [CHR 0x0A] @
     ''2026-11-03 09:05:00,QLD,Service,25,3,Agent2,180,Pending'' @ [CHR 0x0A] @
     ''2026-11-03 09:05:00,VIC,Product,10,5,Agent3,90,Resolved'' @ [CHR 0x0A]"
  unfolding sample_morning
  by (simp add: to_csv_def csv_line_def quote_field_def needs_quote_def special_def
      entry_cells_def str_int_def str_nat.simps digit_def)

lemma load_df_cleared:
  "load_df morning cleared = Inr (Built (load_sample_data morning), seeded)"
proof -
  have "largest_rowid cleared + length (load_sample_data morning) \<le> max_rowid"
    by (simp add: largest_rowid_def cleared_def max_rowid_def load_sample_data_def)
  from insert_data_appends[OF fits_sample this, unfolded stored_sample]
  have "insert_data (load_sample_data morning) cleared = Inr seeded"
    by (simp add: largest_rowid_def cleared_def seeded_def load_sample_data_def)
  then show ?thesis by (simp add: load_df_def read_sql_def cleared_def Let_def)
qed

lemma load_df_two_complaints:
  "load_df t two_complaints = Inr (FromSql (read_sql two_complaints), two_complaints)"
  by (simp add: load_df_def read_sql_def two_complaints_def Let_def)

lemma dashboard_two_complaints:
  "dashboard pd (FromSql (read_sql two_complaints)) =
     DashboardPage 2 (Some 20) (Some (7 / 2)) (Some 150)
       [\<lparr>agent = ''Agent1'', resolution_time_mean = Some 15,
         satisfaction_score_mean = Some 4, call_duration_mean = Some 120,
         cases_handled = 1\<rparr>,
        \<lparr>agent = ''Agent2'', resolution_time_mean = Some 25,
         satisfaction_score_mean = Some 3, call_duration_mean = Some 180,
         cases_handled = 1\<rparr>]
       (Inr [((2026, 11, 3), 2)])"
  by (simp add: dashboard_def daily_counts_def date_column_def read_timestamp_morning
      groupby_def dt_date_def morning_def read_sql_def two_complaints_def agent_stats_def
      mean_def)

text \<open>The script never reads the three filter widgets.\<close>

lemma main_ignores_filters:
  "main pd (w\<lparr>date_range := dr, status_filter := sf, agent_filter := af\<rparr>) t0 t1 st
   = main pd w t0 t1 st"
  by (simp add: main_def Let_def
      split: sum.splits prod.splits menu.splits export_format.splits)

text \<open>
  C1, at a failing input. With the status filter set to Resolved and a resolved and a
  pending complaint in the store, the dashboard is that of both complaints: the filter is
  not applied. The filter of the specification lets one record pass, that of Agent1.
\<close>

theorem status_filter_not_applied:
  "main pd (idle\<lparr>status_filter := [''Resolved'']\<rparr>) morning morning two_complaints =
     (Inr (DashboardPage 2 (Some 20) (Some (7 / 2)) (Some 150)
             [\<lparr>agent = ''Agent1'', resolution_time_mean = Some 15,
               satisfaction_score_mean = Some 4, call_duration_mean = Some 120,
               cases_handled = 1\<rparr>,
              \<lparr>agent = ''Agent2'', resolution_time_mean = Some 25,
               satisfaction_score_mean = Some 3, call_duration_mean = Some 180,
               cases_handled = 1\<rparr>]
             (Inr [((2026, 11, 3), 2)])),
      two_complaints) \<and>
   map agent_name
     (spec_filter [] [''Resolved''] [] (records (FromSql (read_sql two_complaints))))
   = [''Agent1'']"
proof
  have "main pd (idle\<lparr>status_filter := [''Resolved'']\<rparr>) morning morning two_complaints
        = (Inr (dashboard pd (FromSql (read_sql two_complaints))), two_complaints)"
    by (simp add: main_def init_db_def load_df_two_complaints idle_def)
  then show "main pd (idle\<lparr>status_filter := [''Resolved'']\<rparr>) morning morning two_complaints =
     (Inr (DashboardPage 2 (Some 20) (Some (7 / 2)) (Some 150)
             [\<lparr>agent = ''Agent1'', resolution_time_mean = Some 15,
               satisfaction_score_mean = Some 4, call_duration_mean = Some 120,
               cases_handled = 1\<rparr>,
              \<lparr>agent = ''Agent2'', resolution_time_mean = Some 25,
               satisfaction_score_mean = Some 3, call_duration_mean = Some 180,
               cases_handled = 1\<rparr>]
             (Inr [((2026, 11, 3), 2)])),
      two_complaints)"
    by (simp only: dashboard_two_complaints)
  show "map agent_name
     (spec_filter [] [''Resolved''] [] (records (FromSql (read_sql two_complaints))))
   = [''Agent1'']"
    by (simp add: spec_filter_def spec_date_ok_def read_sql_def two_complaints_def)
qed

text \<open>
  C6, at a failing input. A CSV export in the run that seeds the store is made from the
  frame built in memory: its header has eight columns and no \<open>id\<close>, and no row has a key,
  although the three rows were stored under the ids 4, 5 and 6 in the same run.
\<close>

theorem export_after_seeding_has_no_id:
  "main pd (idle\<lparr>menu_option := DataExport, export_format := CSV, generate_export := True\<rparr>)
     morning morning cleared =
     (Inr (ExportPage (Some (CsvFile (encode
        (''timestamp,location,complaint_type,resolution_time,satisfaction_score,agent_name,call_duration,status'' @ [CHR 0x0A] @
         ''2026-11-03 09:05:00,NSW,Billing,15,4,Agent1,120,Resolved'' @ [CHR 0x0A] @
         ''2026-11-03 09:05:00,QLD,Service,25,3,Agent2,180,Pending'' @ [CHR 0x0A] @
         ''2026-11-03 09:05:00,VIC,Product,10,5,Agent3,90,Resolved'' @ [CHR 0x0A]))))),
      seeded) \<and>
   map id_col (read_sql seeded) = [4, 5, 6]"
proof
  have "main pd (idle\<lparr>menu_option := DataExport, export_format := CSV, generate_export := True\<rparr>)
          morning morning cleared
        = (Inr (ExportPage (Some (CsvFile (encode (to_csv pd (Built (load_sample_data morning))))))),
           seeded)"
    by (simp add: main_def init_db_def load_df_cleared idle_def)
  then show "main pd (idle\<lparr>menu_option := DataExport, export_format := CSV, generate_export := True\<rparr>)
     morning morning cleared =
     (Inr (ExportPage (Some (CsvFile (encode
        (''timestamp,location,complaint_type,resolution_time,satisfaction_score,agent_name,call_duration,status'' @ [CHR 0x0A] @
         ''2026-11-03 09:05:00,NSW,Billing,15,4,Agent1,120,Resolved'' @ [CHR 0x0A] @
         ''2026-11-03 09:05:00,QLD,Service,25,3,Agent2,180,Pending'' @ [CHR 0x0A] @
         ''2026-11-03 09:05:00,VIC,Product,10,5,Agent3,90,Resolved'' @ [CHR 0x0A]))))),
      seeded)"
    by (simp only: to_csv_sample)
  show "map id_col (read_sql seeded) = [4, 5, 6]"
    by (simp add: read_sql_def seeded_def load_sample_data_def)
qed

section \<open>Instances\<close>




theorem daily_trend_witness:
  "map timestamp (records two_days) = map strftime [morning, morning, morning, evening] \<and>
   list_all core_datetime [morning, morning, morning, evening] \<and>
   daily_counts plain_pandas two_days = Inr [((2026, 11, 3), 3), ((2026, 11, 4), 1)] \<and>
   set (map fst [((2026, 11, 3), 3), ((2026, 11, 4), 1 :: nat)])
     = set (map (\<lambda>d. (year d, month d, day d)) [morning, morning, morning, evening]) \<and>
   list_all (\<lambda>(k, n). n = length (filter (\<lambda>d. (year d, month d, day d) = k)
                                    [morning, morning, morning, evening]))
     [((2026, 11, 3), 3), ((2026, 11, 4), 1)]"
proof -
  let ?ds = "[morning, morning, morning, evening]"
  have a: "map timestamp (records two_days) = map strftime ?ds"
    by (simp add: two_days_records sample_morning strftime_morning strftime_evening)
  have b: "list_all core_datetime ?ds"
    by (simp add: core_datetime_def days_in_month_def leap_def morning_def evening_def)
  from daily_trend[OF a b, of plain_pandas] obtain tr
    where tr: "daily_counts plain_pandas two_days = Inr tr"
      and s: "set (map fst tr) = set (map (\<lambda>d. (year d, month d, day d)) ?ds)"
      and c: "\<forall>(k, n) \<in> set tr. n = length (filter (\<lambda>d. (year d, month d, day d) = k) ?ds)"
    by blast
  from tr have t: "tr = [((2026, 11, 3), 3), ((2026, 11, 4), 1)]"
    by (simp add: daily_counts_two_days)
  show ?thesis
    using a b daily_counts_two_days s c unfolding t list_all_iff by blast
qed

end
